theory Spec2Isabelle
  imports Main "HOL-Library.Word"
begin

section \<open>Texture enumerations of the Rubbish Rush engine (Graphics/TextureEnums.h)\<close>

text \<open>
  The header declares scoped enumerations over the integer constants of OpenGL and five
  \<^verbatim>\<open>constexpr\<close> helpers that switch over them. The helpers are embedded below as they
  are written: every \<^verbatim>\<open>switch\<close> is a chain of tests on the case labels in source order,
  the \<^verbatim>\<open>default\<close> branch is the final \<open>else\<close>, and the logging macros of the
  \<^verbatim>\<open>default\<close> branches append to an explicit log that is passed in and returned.
\<close>

subsection \<open>Machine types\<close>

text \<open>
  \<^verbatim>\<open>GLint\<close> and \<^verbatim>\<open>int\<close> are 32-bit two's complement integers, \<^verbatim>\<open>size_t\<close> is
  the 64-bit unsigned integer of the x64 build.
\<close>

type_synonym GLint = "32 word"
type_synonym cint = "32 word"
type_synonym size_t = "64 word"

subsection \<open>Constants of glad/glad.h\<close>

text \<open>
  Modelled from the spec: \<^verbatim>\<open>glad/glad.h\<close> is included by the header but is not among the
  sources. The spec says that every enumerator is one fixed constant of the graphics API,
  reproduced exactly; the numbers below are the ones the OpenGL registry assigns to the
  names the header uses.
\<close>

definition GL_NONE :: GLint where "GL_NONE = 0"
definition GL_RED :: GLint where "GL_RED = 0x1903"
definition GL_RG :: GLint where "GL_RG = 0x8227"
definition GL_RGB :: GLint where "GL_RGB = 0x1907"
definition GL_SRGB :: GLint where "GL_SRGB = 0x8C40"
definition GL_BGR :: GLint where "GL_BGR = 0x80E0"
definition GL_RGBA :: GLint where "GL_RGBA = 0x1908"
definition GL_BGRA :: GLint where "GL_BGRA = 0x80E1"
definition GL_DEPTH_COMPONENT :: GLint where "GL_DEPTH_COMPONENT = 0x1902"
definition GL_DEPTH_STENCIL :: GLint where "GL_DEPTH_STENCIL = 0x84F9"

definition GL_BYTE :: GLint where "GL_BYTE = 0x1400"
definition GL_UNSIGNED_BYTE :: GLint where "GL_UNSIGNED_BYTE = 0x1401"
definition GL_SHORT :: GLint where "GL_SHORT = 0x1402"
definition GL_UNSIGNED_SHORT :: GLint where "GL_UNSIGNED_SHORT = 0x1403"
definition GL_INT :: GLint where "GL_INT = 0x1404"
definition GL_UNSIGNED_INT :: GLint where "GL_UNSIGNED_INT = 0x1405"
definition GL_FLOAT :: GLint where "GL_FLOAT = 0x1406"

definition GL_R8 :: GLint where "GL_R8 = 0x8229"
definition GL_RG8 :: GLint where "GL_RG8 = 0x822B"
definition GL_RGB8 :: GLint where "GL_RGB8 = 0x8051"
definition GL_RGBA8 :: GLint where "GL_RGBA8 = 0x8058"

subsection \<open>The enumerations\<close>

text \<open>
  \<^verbatim>\<open>ENUM(Name, GLint, ...)\<close> declares a scoped enumeration whose underlying type is
  \<^verbatim>\<open>GLint\<close>: an object of the type holds any \<^verbatim>\<open>GLint\<close>, the enumerators are the named
  ones. Each enumeration is therefore a type of its own wrapped around the underlying
  integer, and an enumerator \<^verbatim>\<open>Name::X\<close> is the constant \<open>Name_X\<close>. Only the
  enumerators that the helpers mention are needed of \<^verbatim>\<open>InternalFormat\<close>.
\<close>

datatype InternalFormat = InternalFormat (InternalFormat_raw: GLint)
datatype PixelFormat = PixelFormat (PixelFormat_raw: GLint)
datatype PixelType = PixelType (PixelType_raw: GLint)

definition InternalFormat_Unknown :: InternalFormat where
  "InternalFormat_Unknown = InternalFormat GL_NONE"
definition InternalFormat_R8 :: InternalFormat where
  "InternalFormat_R8 = InternalFormat GL_R8"
definition InternalFormat_RG8 :: InternalFormat where
  "InternalFormat_RG8 = InternalFormat GL_RG8"
definition InternalFormat_RGB8 :: InternalFormat where
  "InternalFormat_RGB8 = InternalFormat GL_RGB8"
definition InternalFormat_RGBA8 :: InternalFormat where
  "InternalFormat_RGBA8 = InternalFormat GL_RGBA8"

definition PixelFormat_Unknown :: PixelFormat where
  "PixelFormat_Unknown = PixelFormat GL_NONE"
definition PixelFormat_Red :: PixelFormat where
  "PixelFormat_Red = PixelFormat GL_RED"
definition PixelFormat_RG :: PixelFormat where
  "PixelFormat_RG = PixelFormat GL_RG"
definition PixelFormat_RGB :: PixelFormat where
  "PixelFormat_RGB = PixelFormat GL_RGB"
definition PixelFormat_SRGB :: PixelFormat where
  "PixelFormat_SRGB = PixelFormat GL_SRGB"
definition PixelFormat_BGR :: PixelFormat where
  "PixelFormat_BGR = PixelFormat GL_BGR"
definition PixelFormat_RGBA :: PixelFormat where
  "PixelFormat_RGBA = PixelFormat GL_RGBA"
definition PixelFormat_BGRA :: PixelFormat where
  "PixelFormat_BGRA = PixelFormat GL_BGRA"
definition PixelFormat_Depth :: PixelFormat where
  "PixelFormat_Depth = PixelFormat GL_DEPTH_COMPONENT"
definition PixelFormat_DepthStencil :: PixelFormat where
  "PixelFormat_DepthStencil = PixelFormat GL_DEPTH_STENCIL"

definition PixelType_UByte :: PixelType where
  "PixelType_UByte = PixelType GL_UNSIGNED_BYTE"
definition PixelType_Byte :: PixelType where
  "PixelType_Byte = PixelType GL_BYTE"
definition PixelType_UShort :: PixelType where
  "PixelType_UShort = PixelType GL_UNSIGNED_SHORT"
definition PixelType_Short :: PixelType where
  "PixelType_Short = PixelType GL_SHORT"
definition PixelType_UInt :: PixelType where
  "PixelType_UInt = PixelType GL_UNSIGNED_INT"
definition PixelType_Int :: PixelType where
  "PixelType_Int = PixelType GL_INT"
definition PixelType_Float :: PixelType where
  "PixelType_Float = PixelType GL_FLOAT"

subsection \<open>Diagnostics of Logging.h\<close>

text \<open>
  The log is the state that the helpers touch: a diagnostic is the kind of the report,
  its format string and the integer that is formatted into it.
\<close>

datatype diagnostic = AssertionFailed string GLint | Warning string GLint

type_synonym log = "diagnostic list"

text \<open>
  Modelled from the spec: \<^verbatim>\<open>Logging.h\<close>, which defines \<^verbatim>\<open>LOG_ASSERT\<close>, is not among
  the sources. The spec says that a value outside the defined set is reported through an
  assertion-style diagnostic and that a best-effort value is then returned, so a failed
  assertion appends its report to the log and execution goes on.
\<close>

definition LOG_ASSERT :: "bool \<Rightarrow> string \<Rightarrow> GLint \<Rightarrow> log \<Rightarrow> log" where
  "LOG_ASSERT x fmt arg s = (if x then s else s @ [AssertionFailed fmt arg])"

text \<open>
  Modelled from the spec: \<^verbatim>\<open>Logging.h\<close>, which defines \<^verbatim>\<open>LOG_WARN\<close>, is not among
  the sources. The spec says that an unsupported channel count is reported through a
  warning-level diagnostic that is not fatal. Both calls of the header pass \<^verbatim>\<open>false\<close>
  first; the spec gives that argument no meaning, so it is taken and not looked at.
\<close>

definition LOG_WARN :: "bool \<Rightarrow> string \<Rightarrow> cint \<Rightarrow> log \<Rightarrow> log" where
  "LOG_WARN x fmt arg s = s @ [Warning fmt arg]"

subsection \<open>The five helpers\<close>

text \<open>Lines 94 to 109: the size of one component, in bytes.\<close>

definition GetTexelComponentSize :: "PixelType \<Rightarrow> log \<Rightarrow> size_t \<times> log" where
  "GetTexelComponentSize type s =
     (if type = PixelType_UByte \<or> type = PixelType_Byte then (1, s)
      else if type = PixelType_UShort \<or> type = PixelType_Short then (2, s)
      else if type = PixelType_Int \<or> type = PixelType_UInt then (4, s)
      else (0, LOG_ASSERT False ''Unknown type: {}'' (PixelType_raw type) s))"

text \<open>Lines 111 to 125.\<close>

definition GetInternalFormatForChannels8 :: "cint \<Rightarrow> log \<Rightarrow> InternalFormat \<times> log" where
  "GetInternalFormatForChannels8 numChannels s =
     (if numChannels = 1 then (InternalFormat_R8, s)
      else if numChannels = 2 then (InternalFormat_RG8, s)
      else if numChannels = 3 then (InternalFormat_RGB8, s)
      else if numChannels = 4 then (InternalFormat_RGBA8, s)
      else (InternalFormat_Unknown,
            LOG_WARN False ''Unsupported texture format with {0} channels'' numChannels s))"

text \<open>Lines 126 to 140.\<close>

definition GetPixelFormatForChannels :: "cint \<Rightarrow> log \<Rightarrow> PixelFormat \<times> log" where
  "GetPixelFormatForChannels numChannels s =
     (if numChannels = 1 then (PixelFormat_Red, s)
      else if numChannels = 2 then (PixelFormat_RG, s)
      else if numChannels = 3 then (PixelFormat_RGB, s)
      else if numChannels = 4 then (PixelFormat_RGBA, s)
      else (PixelFormat_Unknown,
            LOG_WARN False ''Unsupported texture format with {0} channels'' numChannels s))"

text \<open>Lines 146 to 164: the number of components of a pixel format.\<close>

definition GetTexelComponentCount :: "PixelFormat \<Rightarrow> log \<Rightarrow> GLint \<times> log" where
  "GetTexelComponentCount format s =
     (if format = PixelFormat_Depth \<or> format = PixelFormat_DepthStencil
         \<or> format = PixelFormat_Red then (1, s)
      else if format = PixelFormat_RG then (2, s)
      else if format = PixelFormat_RGB \<or> format = PixelFormat_BGR then (3, s)
      else if format = PixelFormat_RGBA \<or> format = PixelFormat_BGRA then (4, s)
      else (0, LOG_ASSERT False ''Unknown format: {}'' (PixelFormat_raw format) s))"

text \<open>
  Lines 172 to 174. The product has type \<^verbatim>\<open>size_t\<close>: the \<^verbatim>\<open>GLint\<close> count is converted
  to \<^verbatim>\<open>size_t\<close> (sign extension) and the multiplication wraps at 64 bits. C++ leaves
  open which operand of \<^verbatim>\<open>*\<close> is evaluated first, which decides the order of the two
  reports when both calls fail, so the order is a parameter of the model.
\<close>

datatype operand_order = LeftFirst | RightFirst

definition GetTexelSize ::
    "operand_order \<Rightarrow> PixelFormat \<Rightarrow> PixelType \<Rightarrow> log \<Rightarrow> size_t \<times> log" where
  "GetTexelSize ord format type s =
     (case ord of
        LeftFirst \<Rightarrow>
          (let (size, s1) = GetTexelComponentSize type s;
               (count, s2) = GetTexelComponentCount format s1
           in (size * scast count, s2))
      | RightFirst \<Rightarrow>
          (let (count, s1) = GetTexelComponentCount format s;
               (size, s2) = GetTexelComponentSize type s1
           in (size * scast count, s2)))"

section \<open>Properties\<close>

subsection \<open>Auxiliary facts\<close>

lemmas GL_defs =
  GL_NONE_def GL_RED_def GL_RG_def GL_RGB_def GL_SRGB_def GL_BGR_def GL_RGBA_def
  GL_BGRA_def GL_DEPTH_COMPONENT_def GL_DEPTH_STENCIL_def
  GL_BYTE_def GL_UNSIGNED_BYTE_def GL_SHORT_def GL_UNSIGNED_SHORT_def GL_INT_def
  GL_UNSIGNED_INT_def GL_FLOAT_def
  GL_R8_def GL_RG8_def GL_RGB8_def GL_RGBA8_def

lemmas InternalFormat_defs =
  InternalFormat_Unknown_def InternalFormat_R8_def InternalFormat_RG8_def
  InternalFormat_RGB8_def InternalFormat_RGBA8_def

lemmas PixelFormat_defs =
  PixelFormat_Unknown_def PixelFormat_Red_def PixelFormat_RG_def PixelFormat_RGB_def
  PixelFormat_SRGB_def PixelFormat_BGR_def PixelFormat_RGBA_def PixelFormat_BGRA_def
  PixelFormat_Depth_def PixelFormat_DepthStencil_def

lemmas PixelType_defs =
  PixelType_UByte_def PixelType_Byte_def PixelType_UShort_def PixelType_Short_def
  PixelType_UInt_def PixelType_Int_def PixelType_Float_def

lemma GetTexelComponentSize_listed:
  "GetTexelComponentSize PixelType_UByte s = (1, s)"
  "GetTexelComponentSize PixelType_Byte s = (1, s)"
  "GetTexelComponentSize PixelType_UShort s = (2, s)"
  "GetTexelComponentSize PixelType_Short s = (2, s)"
  "GetTexelComponentSize PixelType_UInt s = (4, s)"
  "GetTexelComponentSize PixelType_Int s = (4, s)"
  by (simp_all add: GetTexelComponentSize_def PixelType_defs GL_defs)

lemma GetTexelComponentCount_listed:
  "GetTexelComponentCount PixelFormat_Red s = (1, s)"
  "GetTexelComponentCount PixelFormat_Depth s = (1, s)"
  "GetTexelComponentCount PixelFormat_DepthStencil s = (1, s)"
  "GetTexelComponentCount PixelFormat_RG s = (2, s)"
  "GetTexelComponentCount PixelFormat_RGB s = (3, s)"
  "GetTexelComponentCount PixelFormat_BGR s = (3, s)"
  "GetTexelComponentCount PixelFormat_RGBA s = (4, s)"
  "GetTexelComponentCount PixelFormat_BGRA s = (4, s)"
  by (simp_all add: GetTexelComponentCount_def PixelFormat_defs GL_defs)

lemma sint_range_1_4:
  "(1 \<le> sint n \<and> sint n \<le> 4) = (n = 1 \<or> n = 2 \<or> n = 3 \<or> (n::32 word) = 4)"
proof
  assume "1 \<le> sint n \<and> sint n \<le> 4"
  then have "sint n = 1 \<or> sint n = 2 \<or> sint n = 3 \<or> sint n = 4" by arith
  moreover have "n = word_of_int (sint n)" by simp
  ultimately show "n = 1 \<or> n = 2 \<or> n = 3 \<or> n = 4"
    by (metis of_int_1 of_int_numeral)
next
  assume "n = 1 \<or> n = 2 \<or> n = 3 \<or> n = 4"
  then show "1 \<le> sint n \<and> sint n \<le> 4" by auto
qed

lemma GetTexelComponentSize_log:
  "GetTexelComponentSize type s =
     (fst (GetTexelComponentSize type []), s @ snd (GetTexelComponentSize type []))"
  by (simp add: GetTexelComponentSize_def LOG_ASSERT_def)

lemma GetTexelComponentCount_log:
  "GetTexelComponentCount format s =
     (fst (GetTexelComponentCount format []), s @ snd (GetTexelComponentCount format []))"
  by (simp add: GetTexelComponentCount_def LOG_ASSERT_def)

lemma GetInternalFormatForChannels8_log:
  "GetInternalFormatForChannels8 n s =
     (fst (GetInternalFormatForChannels8 n []), s @ snd (GetInternalFormatForChannels8 n []))"
  by (simp add: GetInternalFormatForChannels8_def LOG_WARN_def)

lemma GetPixelFormatForChannels_log:
  "GetPixelFormatForChannels n s =
     (fst (GetPixelFormatForChannels n []), s @ snd (GetPixelFormatForChannels n []))"
  by (simp add: GetPixelFormatForChannels_def LOG_WARN_def)

lemma GetTexelSize_unfold:
  "GetTexelSize ord format type s =
     (fst (GetTexelComponentSize type []) * scast (fst (GetTexelComponentCount format [])),
      case ord of
        LeftFirst \<Rightarrow>
          s @ snd (GetTexelComponentSize type []) @ snd (GetTexelComponentCount format [])
      | RightFirst \<Rightarrow>
          s @ snd (GetTexelComponentCount format []) @ snd (GetTexelComponentSize type []))"
proof (cases ord)
  case LeftFirst
  show ?thesis
    unfolding GetTexelSize_def LeftFirst
    by (subst GetTexelComponentSize_log, subst GetTexelComponentCount_log) simp
next
  case RightFirst
  show ?thesis
    unfolding GetTexelSize_def RightFirst
    by (subst GetTexelComponentCount_log, subst GetTexelComponentSize_log) simp
qed

subsection \<open>Component sizes and counts\<close>

text \<open>
  C1. The claim is that the component size is 1, 1, 2, 2, 4, 4, 4 for UByte, Byte, UShort,
  Short, UInt, Int, Float. The switch has case labels for the six integer types only:
  those give 1, 1, 2, 2, 4, 4 and leave the log alone, while Float reaches the default
  branch, which reports "Unknown type" and returns 0, whatever the log was.
\<close>

theorem GetTexelComponentSize_values:
  "GetTexelComponentSize PixelType_UByte s = (1, s)
   \<and> GetTexelComponentSize PixelType_Byte s = (1, s)
   \<and> GetTexelComponentSize PixelType_UShort s = (2, s)
   \<and> GetTexelComponentSize PixelType_Short s = (2, s)
   \<and> GetTexelComponentSize PixelType_UInt s = (4, s)
   \<and> GetTexelComponentSize PixelType_Int s = (4, s)
   \<and> GetTexelComponentSize PixelType_Float s =
         (0, s @ [AssertionFailed ''Unknown type: {}'' GL_FLOAT])"
  by (simp add: GetTexelComponentSize_def LOG_ASSERT_def PixelType_defs GL_defs)

text \<open>
  C2. The claim is that for each of the nine pixel formats other than Unknown the
  function returns the component count. The switch has case labels for eight of them
  (1 for Red, Depth and DepthStencil, 2 for RG, 3 for RGB and BGR, 4 for RGBA and BGRA);
  SRGB, the ninth, reaches the default branch, which reports "Unknown format" and
  returns 0.
\<close>

theorem GetTexelComponentCount_values:
  "GetTexelComponentCount PixelFormat_Red s = (1, s)
   \<and> GetTexelComponentCount PixelFormat_Depth s = (1, s)
   \<and> GetTexelComponentCount PixelFormat_DepthStencil s = (1, s)
   \<and> GetTexelComponentCount PixelFormat_RG s = (2, s)
   \<and> GetTexelComponentCount PixelFormat_RGB s = (3, s)
   \<and> GetTexelComponentCount PixelFormat_BGR s = (3, s)
   \<and> GetTexelComponentCount PixelFormat_RGBA s = (4, s)
   \<and> GetTexelComponentCount PixelFormat_BGRA s = (4, s)
   \<and> GetTexelComponentCount PixelFormat_SRGB s =
         (0, s @ [AssertionFailed ''Unknown format: {}'' GL_SRGB])"
  by (simp add: GetTexelComponentCount_def LOG_ASSERT_def PixelFormat_defs GL_defs)

text \<open>
  C3. The three example evaluations of the texel size: RGBA with UByte is 4 and Red with
  UShort is 2, with nothing reported; RGB with Float is not 12 but 0, with the report of
  the component size's default branch, in either order of evaluation of the operands.
\<close>

theorem GetTexelSize_examples:
  "GetTexelSize ord PixelFormat_RGBA PixelType_UByte s = (4, s)
   \<and> GetTexelSize ord PixelFormat_Red PixelType_UShort s = (2, s)
   \<and> GetTexelSize ord PixelFormat_RGB PixelType_Float s =
         (0, s @ [AssertionFailed ''Unknown type: {}'' GL_FLOAT])
   \<and> fst (GetTexelSize ord PixelFormat_RGB PixelType_Float s) \<noteq> 12"
  by (simp add: GetTexelSize_def GetTexelComponentSize_def GetTexelComponentCount_listed
        LOG_ASSERT_def PixelType_defs GL_defs split: operand_order.split)

subsection \<open>Channel counts\<close>

text \<open>
  C4. For the channel counts 1, 2, 3 and 4 the 8-bit internal format is R8, RG8, RGB8 and
  RGBA8 and the pixel format is Red, RG, RGB and RGBA; nothing is reported.
\<close>

theorem channels_1_to_4:
  "GetInternalFormatForChannels8 1 s = (InternalFormat_R8, s)
   \<and> GetInternalFormatForChannels8 2 s = (InternalFormat_RG8, s)
   \<and> GetInternalFormatForChannels8 3 s = (InternalFormat_RGB8, s)
   \<and> GetInternalFormatForChannels8 4 s = (InternalFormat_RGBA8, s)
   \<and> GetPixelFormatForChannels 1 s = (PixelFormat_Red, s)
   \<and> GetPixelFormatForChannels 2 s = (PixelFormat_RG, s)
   \<and> GetPixelFormatForChannels 3 s = (PixelFormat_RGB, s)
   \<and> GetPixelFormatForChannels 4 s = (PixelFormat_RGBA, s)"
  by (simp add: GetInternalFormatForChannels8_def GetPixelFormatForChannels_def)

text \<open>
  C5. For every channel count below 1 or above 4, read as a signed 32-bit integer, both
  functions return Unknown; the only effect is one warning appended to the log, so the
  call returns to its caller.
\<close>

theorem channels_out_of_range:
  assumes "sint numChannels < 1 \<or> 4 < sint numChannels"
  shows "GetInternalFormatForChannels8 numChannels s =
           (InternalFormat_Unknown,
            s @ [Warning ''Unsupported texture format with {0} channels'' numChannels])
       \<and> GetPixelFormatForChannels numChannels s =
           (PixelFormat_Unknown,
            s @ [Warning ''Unsupported texture format with {0} channels'' numChannels])"
proof -
  from assms have "\<not> (1 \<le> sint numChannels \<and> sint numChannels \<le> 4)" by arith
  then have "numChannels \<noteq> 1" "numChannels \<noteq> 2" "numChannels \<noteq> 3" "numChannels \<noteq> 4"
    by (simp_all add: sint_range_1_4)
  then show ?thesis
    by (simp add: GetInternalFormatForChannels8_def GetPixelFormatForChannels_def LOG_WARN_def)
qed

theorem channels_out_of_range_witness:
  "sint (0 :: cint) < 1 \<and> 4 < sint (5 :: cint) \<and> sint (- 1 :: cint) < 1
   \<and> GetInternalFormatForChannels8 0 [] =
        (InternalFormat_Unknown, [Warning ''Unsupported texture format with {0} channels'' 0])
   \<and> GetPixelFormatForChannels 0 [] =
        (PixelFormat_Unknown, [Warning ''Unsupported texture format with {0} channels'' 0])
   \<and> GetInternalFormatForChannels8 5 [] =
        (InternalFormat_Unknown, [Warning ''Unsupported texture format with {0} channels'' 5])
   \<and> GetPixelFormatForChannels 5 [] =
        (PixelFormat_Unknown, [Warning ''Unsupported texture format with {0} channels'' 5])
   \<and> GetInternalFormatForChannels8 (- 1) [] =
        (InternalFormat_Unknown, [Warning ''Unsupported texture format with {0} channels'' (- 1)])
   \<and> GetPixelFormatForChannels (- 1) [] =
        (PixelFormat_Unknown, [Warning ''Unsupported texture format with {0} channels'' (- 1)])"
  using channels_out_of_range [of 0 "[]"] channels_out_of_range [of 5 "[]"]
    channels_out_of_range [of "- 1" "[]"]
  by simp

text \<open>
  C8. Round trip: for a channel count n among 1, 2, 3, 4, the component count of the
  pixel format chosen for n is n again, and nothing is reported.
\<close>

theorem channels_roundtrip:
  assumes "numChannels \<in> {1, 2, 3, 4}"
  shows "GetTexelComponentCount (fst (GetPixelFormatForChannels numChannels s)) s'
           = (numChannels, s')"
  using assms
  by (auto simp add: GetPixelFormatForChannels_def GetTexelComponentCount_listed)

theorem channels_roundtrip_witness:
  "(3 :: cint) \<in> {1, 2, 3, 4}
   \<and> GetTexelComponentCount (fst (GetPixelFormatForChannels 3 [])) [] = (3, [])"
  using channels_roundtrip [of 3 "[]" "[]"] by simp

text \<open>
  C9. The 8-bit internal format is Unknown exactly when the channel count is outside
  1 to 4, the pixel format is Unknown exactly when the channel count is outside 1 to 4,
  and so the two functions agree on which channel counts are supported.
\<close>

theorem Unknown_iff_unsupported:
  "(fst (GetInternalFormatForChannels8 numChannels s) = InternalFormat_Unknown
      \<longleftrightarrow> \<not> (1 \<le> sint numChannels \<and> sint numChannels \<le> 4))
   \<and> (fst (GetPixelFormatForChannels numChannels s) = PixelFormat_Unknown
      \<longleftrightarrow> \<not> (1 \<le> sint numChannels \<and> sint numChannels \<le> 4))
   \<and> (fst (GetInternalFormatForChannels8 numChannels s) = InternalFormat_Unknown
      \<longleftrightarrow> fst (GetPixelFormatForChannels numChannels s') = PixelFormat_Unknown)"
  by (simp add: sint_range_1_4 GetInternalFormatForChannels8_def GetPixelFormatForChannels_def
        InternalFormat_defs PixelFormat_defs GL_defs)

theorem Unknown_iff_unsupported_witness:
  "fst (GetInternalFormatForChannels8 5 []) = InternalFormat_Unknown
   \<and> fst (GetPixelFormatForChannels 5 []) = PixelFormat_Unknown
   \<and> fst (GetInternalFormatForChannels8 2 []) \<noteq> InternalFormat_Unknown
   \<and> fst (GetPixelFormatForChannels 2 []) \<noteq> PixelFormat_Unknown"
  using Unknown_iff_unsupported [of 5 "[]" "[]"] Unknown_iff_unsupported [of 2 "[]" "[]"]
  by simp

subsection \<open>The texel size\<close>

text \<open>
  C6. For every pixel format and pixel type, defined enumerator or not, the texel size is
  the component size times the component count, whatever logs the three calls start
  from, and what the call reports is what the two calls inside it report and nothing
  more, in the order in which the operands are evaluated.
\<close>

theorem GetTexelSize_is_product:
  "fst (GetTexelSize ord format type s) =
     fst (GetTexelComponentSize type s1) * scast (fst (GetTexelComponentCount format s2))
   \<and> snd (GetTexelSize ord format type s) =
     (case ord of
        LeftFirst \<Rightarrow>
          s @ snd (GetTexelComponentSize type []) @ snd (GetTexelComponentCount format [])
      | RightFirst \<Rightarrow>
          s @ snd (GetTexelComponentCount format []) @ snd (GetTexelComponentSize type []))"
proof -
  have "fst (GetTexelComponentSize type s1) = fst (GetTexelComponentSize type [])"
    by (subst GetTexelComponentSize_log) simp
  moreover have "fst (GetTexelComponentCount format s2) = fst (GetTexelComponentCount format [])"
    by (subst GetTexelComponentCount_log) simp
  ultimately show ?thesis
    by (simp add: GetTexelSize_unfold)
qed

text \<open>
  C10. For every pixel format and pixel type, defined enumerator or not, the component
  size is one of 0, 1, 2, 4, the component count is one of 0, 1, 2, 3, 4, and the texel
  size, read as an unsigned number, is at most 16.
\<close>

theorem GetTexelSize_bound:
  "fst (GetTexelComponentSize type s) \<in> {0, 1, 2, 4}
   \<and> fst (GetTexelComponentCount format s) \<in> {0, 1, 2, 3, 4}
   \<and> unat (fst (GetTexelSize ord format type s)) \<le> 16"
proof -
  have a: "fst (GetTexelComponentSize type []) \<in> {0, 1, 2, 4}"
    by (simp add: GetTexelComponentSize_def)
  have b: "fst (GetTexelComponentCount format []) \<in> {0, 1, 2, 3, 4}"
    by (simp add: GetTexelComponentCount_def)
  have c: "unat (x * scast y) \<le> 16"
    if "x \<in> {0, 1, 2, 4}" and "y \<in> {0, 1, 2, 3, 4}" for x :: size_t and y :: GLint
    using that by auto
  have "fst (GetTexelComponentSize type s) = fst (GetTexelComponentSize type [])"
    by (subst GetTexelComponentSize_log) simp
  moreover have "fst (GetTexelComponentCount format s) = fst (GetTexelComponentCount format [])"
    by (subst GetTexelComponentCount_log) simp
  ultimately show ?thesis
    using a b c [OF a b] by (simp add: GetTexelSize_unfold)
qed

subsection \<open>Determinism\<close>

text \<open>
  C7. Each of the five helpers is deterministic: the log is the only state a call can
  see, and for the same argument two calls started from any two logs return the same
  value and append the same reports.
\<close>

theorem helpers_deterministic:
  "fst (GetTexelComponentSize type s) = fst (GetTexelComponentSize type s')
   \<and> drop (length s) (snd (GetTexelComponentSize type s)) =
       drop (length s') (snd (GetTexelComponentSize type s'))
   \<and> fst (GetInternalFormatForChannels8 n s) = fst (GetInternalFormatForChannels8 n s')
   \<and> drop (length s) (snd (GetInternalFormatForChannels8 n s)) =
       drop (length s') (snd (GetInternalFormatForChannels8 n s'))
   \<and> fst (GetPixelFormatForChannels n s) = fst (GetPixelFormatForChannels n s')
   \<and> drop (length s) (snd (GetPixelFormatForChannels n s)) =
       drop (length s') (snd (GetPixelFormatForChannels n s'))
   \<and> fst (GetTexelComponentCount format s) = fst (GetTexelComponentCount format s')
   \<and> drop (length s) (snd (GetTexelComponentCount format s)) =
       drop (length s') (snd (GetTexelComponentCount format s'))
   \<and> fst (GetTexelSize ord format type s) = fst (GetTexelSize ord format type s')
   \<and> drop (length s) (snd (GetTexelSize ord format type s)) =
       drop (length s') (snd (GetTexelSize ord format type s'))"
proof -
  have "fst (GetTexelComponentSize type s) = fst (GetTexelComponentSize type s')"
    and "drop (length s) (snd (GetTexelComponentSize type s)) =
         drop (length s') (snd (GetTexelComponentSize type s'))"
    by (simp_all add: GetTexelComponentSize_def LOG_ASSERT_def)
  moreover
  have "fst (GetInternalFormatForChannels8 n s) = fst (GetInternalFormatForChannels8 n s')"
    and "drop (length s) (snd (GetInternalFormatForChannels8 n s)) =
         drop (length s') (snd (GetInternalFormatForChannels8 n s'))"
    by (simp_all add: GetInternalFormatForChannels8_def LOG_WARN_def)
  moreover
  have "fst (GetPixelFormatForChannels n s) = fst (GetPixelFormatForChannels n s')"
    and "drop (length s) (snd (GetPixelFormatForChannels n s)) =
         drop (length s') (snd (GetPixelFormatForChannels n s'))"
    by (simp_all add: GetPixelFormatForChannels_def LOG_WARN_def)
  moreover
  have "fst (GetTexelComponentCount format s) = fst (GetTexelComponentCount format s')"
    and "drop (length s) (snd (GetTexelComponentCount format s)) =
         drop (length s') (snd (GetTexelComponentCount format s'))"
    by (simp_all add: GetTexelComponentCount_def LOG_ASSERT_def)
  moreover
  have "fst (GetTexelSize ord format type s) = fst (GetTexelSize ord format type s')"
    and "drop (length s) (snd (GetTexelSize ord format type s)) =
         drop (length s') (snd (GetTexelSize ord format type s'))"
    by (simp_all add: GetTexelSize_unfold split: operand_order.split)
  ultimately show ?thesis by simp
qed

end
